theory Spec2Isabelle
  imports Main "HOL-Library.Word"
begin

section \<open>Machine types and host intrinsics\<close>

text \<open>
  \<^verbatim>\<open>using i64 = long long;\<close> is a 64-bit two's-complement integer; pointers of the
  64-bit kernel target are 64-bit values with \<open>nullptr = 0\<close>.
\<close>

type_synonym i64 = "64 word"
type_synonym addr = "64 word"

definition nullptr :: addr where
  "nullptr = 0"

text \<open>
  The compiler intrinsics of \<^verbatim>\<open><intrin.h>\<close> that \<^verbatim>\<open>Safe.h\<close> calls. Each is one
  indivisible, sequentially consistent read-modify-write of a single location, so it is a
  function from the old contents of the location to the returned value and the new contents.

  \<^item> \<^verbatim>\<open>_InterlockedIncrement64(p)\<close> adds one and returns the incremented value.
  \<^item> \<^verbatim>\<open>_InterlockedDecrement64(p)\<close> subtracts one and returns the decremented value.
  \<^item> \<^verbatim>\<open>_InterlockedExchangeAdd64(p, v)\<close> adds \<open>v\<close> and returns the value held before.
  \<^item> \<^verbatim>\<open>_InterlockedCompareExchangePointer(Destination, Exchange, Comparand)\<close> stores
    \<open>Exchange\<close> when the location holds \<open>Comparand\<close> and returns the value held before.
\<close>

definition InterlockedIncrement64 :: "i64 \<Rightarrow> i64 \<times> i64" where
  "InterlockedIncrement64 old = (old + 1, old + 1)"

definition InterlockedDecrement64 :: "i64 \<Rightarrow> i64 \<times> i64" where
  "InterlockedDecrement64 old = (old - 1, old - 1)"

definition InterlockedExchangeAdd64 :: "i64 \<Rightarrow> i64 \<Rightarrow> i64 \<times> i64" where
  "InterlockedExchangeAdd64 old v = (old, old + v)"

definition InterlockedCompareExchangePointer :: "addr \<Rightarrow> addr \<Rightarrow> addr \<Rightarrow> addr \<times> addr" where
  "InterlockedCompareExchangePointer old exch comparand =
     (old, if old = comparand then exch else old)"

text \<open>What a C++ operation does when it leaves defined behaviour.\<close>

datatype fault =
    NullDeref          \<comment> \<open>member access through a null pointer\<close>
  | DanglingPointer    \<comment> \<open>access to, or release of, storage that is not live\<close>
  | MismatchedDelete   \<comment> \<open>\<^verbatim>\<open>delete[]\<close> of a scalar \<^verbatim>\<open>new\<close>, or \<^verbatim>\<open>delete\<close> of an array \<^verbatim>\<open>new\<close>\<close>

section \<open>SpinLock\<close>

text \<open>
  \<^verbatim>\<open>
  class SpinLock : public Lock, ... {
    i64 ref_count;
    SpinLock() : ref_count{ 0 } {}
    i64  ref()    const { return _InterlockedExchangeAdd64((LONG64*)&this->ref_count, 0); }
    void lock()   override { _InterlockedDecrement64(&this->ref_count); }
    void unlock() override { _InterlockedIncrement64(&this->ref_count); }
  };
  \<close>
\<close>

record SpinLock =
  ref_count :: i64

definition SpinLock_ctor :: SpinLock where
  "SpinLock_ctor = \<lparr>SpinLock.ref_count = 0\<rparr>"

definition SpinLock_ref :: "SpinLock \<Rightarrow> i64 \<times> SpinLock" where
  "SpinLock_ref this =
     (case InterlockedExchangeAdd64 (SpinLock.ref_count this) 0 of
        (res, new) \<Rightarrow> (res, this\<lparr>SpinLock.ref_count := new\<rparr>))"

definition SpinLock_lock :: "SpinLock \<Rightarrow> SpinLock" where
  "SpinLock_lock this =
     (case InterlockedDecrement64 (SpinLock.ref_count this) of
        (_, new) \<Rightarrow> this\<lparr>SpinLock.ref_count := new\<rparr>)"

definition SpinLock_unlock :: "SpinLock \<Rightarrow> SpinLock" where
  "SpinLock_unlock this =
     (case InterlockedIncrement64 (SpinLock.ref_count this) of
        (_, new) \<Rightarrow> this\<lparr>SpinLock.ref_count := new\<rparr>)"


text \<open>
  Execution contexts that call \<^verbatim>\<open>lock()\<close> and \<^verbatim>\<open>unlock()\<close> on one shared SpinLock.
  Both member functions are a single atomic intrinsic, so an execution of several contexts
  is a sequence of such calls. \<^verbatim>\<open>lock()\<close> has no loop and no wait: the call returns
  after its decrement, and the caller is then in the section the lock guards. \<open>inside\<close>
  lists the contexts that have returned from \<^verbatim>\<open>lock()\<close> and have not yet called
  \<^verbatim>\<open>unlock()\<close>.
\<close>

type_synonym ctx = nat

datatype lock_call = CallLock ctx | CallUnlock ctx

record lock_sys =
  the_lock :: SpinLock
  inside :: "ctx list"

definition lock_sys_init :: lock_sys where
  "lock_sys_init = \<lparr>the_lock = SpinLock_ctor, inside = []\<rparr>"

fun lock_step :: "lock_call \<Rightarrow> lock_sys \<Rightarrow> lock_sys" where
  "lock_step (CallLock c) s =
     s\<lparr>the_lock := SpinLock_lock (the_lock s), inside := inside s @ [c]\<rparr>"
| "lock_step (CallUnlock c) s =
     s\<lparr>the_lock := SpinLock_unlock (the_lock s), inside := remove1 c (inside s)\<rparr>"

fun lock_run :: "lock_call list \<Rightarrow> lock_sys \<Rightarrow> lock_sys" where
  "lock_run [] s = s"
| "lock_run (c # cs) s = lock_run cs (lock_step c s)"

section \<open>ScopedLock\<close>

text \<open>
  \<^verbatim>\<open>
  class ScopedLock : ... {
    Lock* lock;
    ScopedLock(Lock* lock) { this->lock = lock; this->lock->lock(); }
    ~ScopedLock() { if (this->lock) { this->lock->unlock(); } }
  };
  \<close>
  The guard holds a pointer, so the locks live in a store indexed by address. \<^verbatim>\<open>Lock\<close> is
  abstract and \<^verbatim>\<open>SpinLock\<close> is its only implementation in the source, so a virtual call
  through a live pointer runs the SpinLock member. \<open>calls\<close> records every call that was
  dispatched, in order.
\<close>

datatype dispatched = DidLock addr | DidUnlock addr

record lock_store =
  locks :: "addr \<rightharpoonup> SpinLock"
  calls :: "dispatched list"

record ScopedLock =
  lock :: addr

definition Lock_lock :: "addr \<Rightarrow> lock_store \<Rightarrow> fault + lock_store" where
  "Lock_lock p ls =
     (if p = nullptr then Inl NullDeref
      else case locks ls p of
             None \<Rightarrow> Inl DanglingPointer
           | Some l \<Rightarrow> Inr (ls\<lparr>locks := (locks ls)(p \<mapsto> SpinLock_lock l),
                                calls := calls ls @ [DidLock p]\<rparr>))"

definition Lock_unlock :: "addr \<Rightarrow> lock_store \<Rightarrow> fault + lock_store" where
  "Lock_unlock p ls =
     (if p = nullptr then Inl NullDeref
      else case locks ls p of
             None \<Rightarrow> Inl DanglingPointer
           | Some l \<Rightarrow> Inr (ls\<lparr>locks := (locks ls)(p \<mapsto> SpinLock_unlock l),
                                calls := calls ls @ [DidUnlock p]\<rparr>))"

definition ScopedLock_ctor :: "addr \<Rightarrow> lock_store \<Rightarrow> fault + (ScopedLock \<times> lock_store)" where
  "ScopedLock_ctor lock_arg ls =
     (let this = \<lparr>lock = lock_arg\<rparr>
      in case Lock_lock (lock this) ls of
           Inl e \<Rightarrow> Inl e
         | Inr ls' \<Rightarrow> Inr (this, ls'))"

definition ScopedLock_dtor :: "ScopedLock \<Rightarrow> lock_store \<Rightarrow> fault + lock_store" where
  "ScopedLock_dtor this ls =
     (if lock this \<noteq> nullptr then Lock_unlock (lock this) ls else Inr ls)"

section \<open>Atomic\<close>

text \<open>
  \<^verbatim>\<open>
  template <typename T> class Atomic : ... {
    T* data;
    Atomic() : data{ nullptr } { }
    Atomic(T* data) : data{data} {}
    void exchange(T* p) {
      _InterlockedCompareExchangePointer((void**)&this->data, (void*)&this->data, p);
    }
    inline T* load() {
      auto res = _InterlockedCompareExchangePointer(
        (void**)&this->data, (void*)&this->data, (void*)&this->data);
      return reinterpret_cast<T*>(res);
    }
  };
  \<close>
  Both members pass the address of the member \<^verbatim>\<open>data\<close> itself as an operand, so the
  slot carries that address: \<open>self\<close> is \<^verbatim>\<open>&this->data\<close>.
\<close>

record Atomic =
  self :: addr
  data :: addr

definition Atomic_ctor_default :: "addr \<Rightarrow> Atomic" where
  "Atomic_ctor_default a = \<lparr>self = a, data = nullptr\<rparr>"

definition Atomic_ctor :: "addr \<Rightarrow> addr \<Rightarrow> Atomic" where
  "Atomic_ctor a d = \<lparr>self = a, data = d\<rparr>"

definition Atomic_exchange :: "Atomic \<Rightarrow> addr \<Rightarrow> Atomic" where
  "Atomic_exchange this p =
     (case InterlockedCompareExchangePointer (Atomic.data this) (self this) p of
        (_, new) \<Rightarrow> this\<lparr>Atomic.data := new\<rparr>)"

definition Atomic_load :: "Atomic \<Rightarrow> addr \<times> Atomic" where
  "Atomic_load this =
     (case InterlockedCompareExchangePointer (Atomic.data this) (self this) (self this) of
        (res, new) \<Rightarrow> (res, this\<lparr>Atomic.data := new\<rparr>))"

text \<open>A sequence of \<^verbatim>\<open>exchange\<close> calls on one slot, followed by one \<^verbatim>\<open>load\<close>.\<close>

fun Atomic_exchanges :: "Atomic \<Rightarrow> addr list \<Rightarrow> Atomic" where
  "Atomic_exchanges this [] = this"
| "Atomic_exchanges this (p # ps) = Atomic_exchanges (Atomic_exchange this p) ps"

section \<open>Dynamic storage\<close>

text \<open>
  The class templates are instantiated at a type \<open>T\<close>. What the source reads of \<open>T\<close> is
  \<^verbatim>\<open>detail::is_array_v<T>\<close>, \<^verbatim>\<open>detail::extent_v<T>\<close> and
  \<^verbatim>\<open>sizeof(ElementType)\<close> where \<^verbatim>\<open>ElementType = detail::remove_extent_t<T>\<close>.
\<close>

record tparam =
  is_array :: bool
  extent :: nat
  elem_size :: nat

definition sizeof_T :: "tparam \<Rightarrow> nat" where
  "sizeof_T T = (if is_array T then elem_size T * extent T else elem_size T)"

text \<open>
  A new-expression creates either one object (\<^verbatim>\<open>new X\<close>) or an array of \<open>n\<close> objects
  (\<^verbatim>\<open>new X[n]\<close>, which is also what \<^verbatim>\<open>new T\<close> is when \<open>T\<close> names an array type
  \<^verbatim>\<open>X[n]\<close>). The form decides which delete-expression may end it: \<^verbatim>\<open>delete\<close> for
  the first, \<^verbatim>\<open>delete[]\<close> for the second; the other pairing is undefined behaviour.
\<close>

datatype new_form = ScalarNew | ArrayNew nat

fun elements :: "new_form \<Rightarrow> nat" where
  "elements ScalarNew = 1"
| "elements (ArrayNew n) = n"

record allocation =
  bytes :: nat
  paged :: bool
  form :: new_form

text \<open>
  Observable effects on payloads and control blocks, in the order they happen:
  the destructor of element \<open>i\<close> of the payload at an address, the release of a payload's
  storage (with the byte count it was allocated with), and the release of a control block
  (with the reference count the block holds when its storage is handed back).
\<close>

datatype event = Destroy addr nat | Release addr nat | FreeBlock addr i64

fun is_Destroy :: "event \<Rightarrow> bool" where
  "is_Destroy (Destroy p i) = True"
| "is_Destroy _ = False"

record SharedPtrState =
  ref_count :: i64
  data :: addr

record world =
  objects :: "addr \<rightharpoonup> allocation"
  blocks :: "addr \<rightharpoonup> SharedPtrState"
  trace :: "event list"

definition empty_world :: world where
  "empty_world = \<lparr>objects = Map.empty, blocks = Map.empty, trace = []\<rparr>"

text \<open>
  Modelled from the spec: the placement allocation functions
  \<^verbatim>\<open>operator new(size_t, size_t size, bool paged)\<close> and the matching
  \<^verbatim>\<open>operator delete\<close> are not in \<^verbatim>\<open>Safe.h\<close>. The spec gives them as
  \<^verbatim>\<open>allocate(sizeInBytes, residencyClass) -> rawMemory\<close> and \<^verbatim>\<open>release(rawMemory)\<close>:
  the storage obtained has the requested size and residency class. The address \<open>p\<close> is
  the one the allocator hands out; a null \<open>p\<close> is a failed allocation, after which no object
  is created and the new-expression yields null.
\<close>

definition new_expr :: "new_form \<Rightarrow> nat \<Rightarrow> bool \<Rightarrow> addr \<Rightarrow> world \<Rightarrow> addr \<times> world" where
  "new_expr f sz pg p w =
     (if p = nullptr then (nullptr, w)
      else (p, w\<lparr>objects := (objects w)(p \<mapsto> \<lparr>bytes = sz, paged = pg, form = f\<rparr>)\<rparr>))"

text \<open>
  \<^verbatim>\<open>delete p\<close> and \<^verbatim>\<open>delete[] p\<close> on a payload pointer: nothing for a null pointer;
  otherwise the destructor of every element runs, last element first, and the storage is
  released.
\<close>

definition destroy_events :: "addr \<Rightarrow> nat \<Rightarrow> event list" where
  "destroy_events p n = map (Destroy p) (rev [0..<n])"

definition delete_expr :: "bool \<Rightarrow> addr \<Rightarrow> world \<Rightarrow> fault + world" where
  "delete_expr array_form p w =
     (if p = nullptr then Inr w
      else case objects w p of
             None \<Rightarrow> Inl DanglingPointer
           | Some a \<Rightarrow>
               (if array_form = (form a \<noteq> ScalarNew)
                then Inr (w\<lparr>objects := (objects w)(p := None),
                            trace := trace w @ destroy_events p (elements (form a))
                                             @ [Release p (bytes a)]\<rparr>)
                else Inl MismatchedDelete))"

section \<open>UniquePtr\<close>

text \<open>
  \<^verbatim>\<open>
  UniquePtr(const bool&& paged) {
    constexpr size_t Size = sizeof(ElementType) * detail::extent_v<T>;
    if constexpr (detail::is_array_v<T>) { this->data = new (Size, paged) ElementType; }
    else                                 { this->data = new (sizeof(T), paged) T(); }
  }
  UniquePtr(const size_t&& size, const bool&& paged) { this->data = new (size, paged) T; }
  ~UniquePtr() {
    if constexpr (detail::is_array_v<T>) { delete[] this->data; }
    else                                 { delete this->data; }
  }
  \<close>
  In the array branch of the first constructor the new-expression names \<^verbatim>\<open>ElementType\<close>,
  not \<open>T\<close>: it creates one element in \<open>Size\<close> bytes.
\<close>

record UniquePtr =
  data :: addr

definition form_of_T :: "tparam \<Rightarrow> new_form" where
  "form_of_T T = (if is_array T then ArrayNew (extent T) else ScalarNew)"

definition UniquePtr_ctor :: "tparam \<Rightarrow> bool \<Rightarrow> addr \<Rightarrow> world \<Rightarrow> UniquePtr \<times> world" where
  "UniquePtr_ctor T pg p w =
     (let Size = elem_size T * extent T
      in if is_array T
         then (case new_expr ScalarNew Size pg p w of (d, w') \<Rightarrow> (\<lparr>UniquePtr.data = d\<rparr>, w'))
         else (case new_expr ScalarNew (sizeof_T T) pg p w of (d, w') \<Rightarrow> (\<lparr>UniquePtr.data = d\<rparr>, w')))"

definition UniquePtr_ctor_sized ::
  "tparam \<Rightarrow> nat \<Rightarrow> bool \<Rightarrow> addr \<Rightarrow> world \<Rightarrow> UniquePtr \<times> world" where
  "UniquePtr_ctor_sized T sz pg p w =
     (case new_expr (form_of_T T) sz pg p w of (d, w') \<Rightarrow> (\<lparr>UniquePtr.data = d\<rparr>, w'))"

definition UniquePtr_dtor :: "tparam \<Rightarrow> UniquePtr \<Rightarrow> world \<Rightarrow> fault + world" where
  "UniquePtr_dtor T this w =
     (if is_array T then delete_expr True (UniquePtr.data this) w
      else delete_expr False (UniquePtr.data this) w)"

section \<open>SharedPtrState\<close>

text \<open>
  \<^verbatim>\<open>
  SharedPtrState(const bool& paged) : ref_count{ 1 } { ... same two branches as UniquePtr ... }
  SharedPtrState(const size_t& size, const bool& paged) : ref_count{ 1 } {
    this->data = new (size, paged) T;
  }
  ~SharedPtrState() {
    if (_InterlockedDecrement64(&this->ref_count)) { return; }
    if constexpr (detail::is_array_v<T>) { delete[] this->data; }
    else                                 { delete this->data; }
  }
  ElementType* ptr() const { return this->data; }
  void ref()   { _InterlockedIncrement64(&this->ref_count); }
  bool deref() { return _InterlockedDecrement64(&this->ref_count) == 0; }
  \<close>
\<close>

definition SharedPtrState_ctor ::
  "tparam \<Rightarrow> bool \<Rightarrow> addr \<Rightarrow> world \<Rightarrow> SharedPtrState \<times> world" where
  "SharedPtrState_ctor T pg p w =
     (let Size = elem_size T * extent T
      in if is_array T
         then (case new_expr ScalarNew Size pg p w of
                 (d, w') \<Rightarrow> (\<lparr>SharedPtrState.ref_count = 1, SharedPtrState.data = d\<rparr>, w'))
         else (case new_expr ScalarNew (sizeof_T T) pg p w of
                 (d, w') \<Rightarrow> (\<lparr>SharedPtrState.ref_count = 1, SharedPtrState.data = d\<rparr>, w')))"

definition SharedPtrState_ctor_sized ::
  "tparam \<Rightarrow> nat \<Rightarrow> bool \<Rightarrow> addr \<Rightarrow> world \<Rightarrow> SharedPtrState \<times> world" where
  "SharedPtrState_ctor_sized T sz pg p w =
     (case new_expr (form_of_T T) sz pg p w of
        (d, w') \<Rightarrow> (\<lparr>SharedPtrState.ref_count = 1, SharedPtrState.data = d\<rparr>, w'))"

definition SharedPtrState_dtor ::
  "tparam \<Rightarrow> SharedPtrState \<Rightarrow> world \<Rightarrow> fault + (SharedPtrState \<times> world)" where
  "SharedPtrState_dtor T this w =
     (case InterlockedDecrement64 (SharedPtrState.ref_count this) of
        (res, new) \<Rightarrow>
          (let this' = this\<lparr>SharedPtrState.ref_count := new\<rparr>
           in if res \<noteq> 0 then Inr (this', w)
              else (case (if is_array T
                          then delete_expr True (SharedPtrState.data this') w
                          else delete_expr False (SharedPtrState.data this') w) of
                      Inl e \<Rightarrow> Inl e
                    | Inr w' \<Rightarrow> Inr (this', w'))))"

definition SharedPtrState_ptr :: "SharedPtrState \<Rightarrow> addr" where
  "SharedPtrState_ptr this = SharedPtrState.data this"

definition SharedPtrState_ref :: "SharedPtrState \<Rightarrow> SharedPtrState" where
  "SharedPtrState_ref this =
     (case InterlockedIncrement64 (SharedPtrState.ref_count this) of
        (_, new) \<Rightarrow> this\<lparr>SharedPtrState.ref_count := new\<rparr>)"

definition SharedPtrState_deref :: "SharedPtrState \<Rightarrow> bool \<times> SharedPtrState" where
  "SharedPtrState_deref this =
     (case InterlockedDecrement64 (SharedPtrState.ref_count this) of
        (res, new) \<Rightarrow> (res = 0, this\<lparr>SharedPtrState.ref_count := new\<rparr>))"

section \<open>SharedPtr\<close>

text \<open>
  \<^verbatim>\<open>
  State* state;
  ElementType* get_data() const { return this->state->ptr(); }
  SharedPtr(const bool& paged) { this->state = new (sizeof(State), paged) State(paged); }
  SharedPtr(const size_t& size, const bool& paged) {
    this->state = new (size, paged) State(size, paged);
  }
  ~SharedPtr() {
    if (this->state == nullptr) { return; }
    if (this->state->deref()) { delete this->state; }
  }
  SharedPtr(const SharedPtr& other) noexcept : state{ other.state } {
    if (this->state != nullptr) { this->state->ref(); }
  }
  SharedPtr& operator=(const SharedPtr& other) noexcept {
    SharedPtr temp(other);
    detail::swap(this->state, temp.state);
    return *this;
  }
  ElementType* ptr()        { return this->get_data(); }
  ElementType* operator->() { return this->get_data(); }
  ElementType& operator*() const { return *this->get_data(); }
  \<close>
  A handle is its \<open>state\<close> pointer; the control blocks it may point to are the \<open>blocks\<close>
  of the world. \<open>ps\<close> is the address the allocator hands out for the control block and
  \<open>pd\<close> the one for the payload.
\<close>

record SharedPtr =
  state :: addr

definition detail_swap :: "'a \<Rightarrow> 'a \<Rightarrow> 'a \<times> 'a" where
  "detail_swap a b = (let temp = a; a' = b; b' = temp in (a', b'))"

definition SharedPtr_get_data :: "SharedPtr \<Rightarrow> world \<Rightarrow> fault + addr" where
  "SharedPtr_get_data this w =
     (if state this = nullptr then Inl NullDeref
      else case blocks w (state this) of
             None \<Rightarrow> Inl DanglingPointer
           | Some st \<Rightarrow> Inr (SharedPtrState_ptr st))"

definition SharedPtr_ctor ::
  "tparam \<Rightarrow> bool \<Rightarrow> addr \<Rightarrow> addr \<Rightarrow> world \<Rightarrow> SharedPtr \<times> world" where
  "SharedPtr_ctor T pg ps pd w =
     (if ps = nullptr then (\<lparr>state = nullptr\<rparr>, w)
      else case SharedPtrState_ctor T pg pd w of
             (st, w') \<Rightarrow> (\<lparr>state = ps\<rparr>, w'\<lparr>blocks := (blocks w')(ps \<mapsto> st)\<rparr>))"

definition SharedPtr_ctor_sized ::
  "tparam \<Rightarrow> nat \<Rightarrow> bool \<Rightarrow> addr \<Rightarrow> addr \<Rightarrow> world \<Rightarrow> SharedPtr \<times> world" where
  "SharedPtr_ctor_sized T sz pg ps pd w =
     (if ps = nullptr then (\<lparr>state = nullptr\<rparr>, w)
      else case SharedPtrState_ctor_sized T sz pg pd w of
             (st, w') \<Rightarrow> (\<lparr>state = ps\<rparr>, w'\<lparr>blocks := (blocks w')(ps \<mapsto> st)\<rparr>))"

text \<open>
  \<^verbatim>\<open>delete this->state\<close>: the destructor of the control block runs, then the block's
  storage is released.
\<close>

definition delete_state :: "tparam \<Rightarrow> addr \<Rightarrow> world \<Rightarrow> fault + world" where
  "delete_state T p w =
     (if p = nullptr then Inr w
      else case blocks w p of
             None \<Rightarrow> Inl DanglingPointer
           | Some st \<Rightarrow>
               (case SharedPtrState_dtor T st w of
                  Inl e \<Rightarrow> Inl e
                | Inr (st', w') \<Rightarrow>
                    Inr (w'\<lparr>blocks := (blocks w')(p := None),
                            trace := trace w' @ [FreeBlock p (SharedPtrState.ref_count st')]\<rparr>)))"

definition SharedPtr_dtor :: "tparam \<Rightarrow> SharedPtr \<Rightarrow> world \<Rightarrow> fault + world" where
  "SharedPtr_dtor T this w =
     (if state this = nullptr then Inr w
      else case blocks w (state this) of
             None \<Rightarrow> Inl DanglingPointer
           | Some st \<Rightarrow>
               (case SharedPtrState_deref st of
                  (zero, st') \<Rightarrow>
                    (let w1 = w\<lparr>blocks := (blocks w)(state this \<mapsto> st')\<rparr>
                     in if zero then delete_state T (state this) w1 else Inr w1)))"

definition SharedPtr_copy :: "SharedPtr \<Rightarrow> world \<Rightarrow> fault + (SharedPtr \<times> world)" where
  "SharedPtr_copy other w =
     (let this = \<lparr>state = state other\<rparr>
      in if state this \<noteq> nullptr
         then (case blocks w (state this) of
                 None \<Rightarrow> Inl DanglingPointer
               | Some st \<Rightarrow>
                   Inr (this, w\<lparr>blocks := (blocks w)(state this \<mapsto> SharedPtrState_ref st)\<rparr>))
         else Inr (this, w))"

text \<open>
  \<^verbatim>\<open>operator=\<close> takes \<^verbatim>\<open>this\<close> and \<^verbatim>\<open>other\<close> by reference, and in a self-assignment
  both name one object. The handles therefore live in a store \<open>hs\<close> indexed by location,
  and the operator takes two locations; \<^verbatim>\<open>temp\<close> is a local of the call.
\<close>

type_synonym handles = "addr \<rightharpoonup> SharedPtr"

definition SharedPtr_assign ::
  "tparam \<Rightarrow> addr \<Rightarrow> addr \<Rightarrow> handles \<Rightarrow> world \<Rightarrow> fault + (handles \<times> world)" where
  "SharedPtr_assign T this_loc other_loc hs w =
     (case hs other_loc of
        None \<Rightarrow> Inl DanglingPointer
      | Some other \<Rightarrow>
          (case SharedPtr_copy other w of
             Inl e \<Rightarrow> Inl e
           | Inr (temp, w1) \<Rightarrow>
               (case hs this_loc of
                  None \<Rightarrow> Inl DanglingPointer
                | Some this \<Rightarrow>
                    (case detail_swap (state this) (state temp) of
                       (a, b) \<Rightarrow>
                         (let hs' = hs(this_loc \<mapsto> this\<lparr>state := a\<rparr>);
                              temp' = temp\<lparr>state := b\<rparr>
                          in case SharedPtr_dtor T temp' w1 of
                               Inl e \<Rightarrow> Inl e
                             | Inr w2 \<Rightarrow> Inr (hs', w2))))))"

definition SharedPtr_ptr :: "SharedPtr \<Rightarrow> world \<Rightarrow> fault + addr" where
  "SharedPtr_ptr this w = SharedPtr_get_data this w"

definition SharedPtr_arrow :: "SharedPtr \<Rightarrow> world \<Rightarrow> fault + addr" where
  "SharedPtr_arrow this w = SharedPtr_get_data this w"

definition SharedPtr_star :: "SharedPtr \<Rightarrow> world \<Rightarrow> fault + addr" where
  "SharedPtr_star this w =
     (case SharedPtr_get_data this w of
        Inl e \<Rightarrow> Inl e
      | Inr d \<Rightarrow> if d = nullptr then Inl NullDeref else Inr d)"

text \<open>Several handles going out of scope one after the other; the first fault ends the run.\<close>

fun SharedPtr_dtor_all :: "tparam \<Rightarrow> SharedPtr list \<Rightarrow> world \<Rightarrow> fault + world" where
  "SharedPtr_dtor_all T [] w = Inr w"
| "SharedPtr_dtor_all T (h # hs) w =
     (case SharedPtr_dtor T h w of
        Inl e \<Rightarrow> Inl e
      | Inr w' \<Rightarrow> SharedPtr_dtor_all T hs w')"

text \<open>
  Whether the block a handle points to is live with a count other than zero, as it is
  for every handle that came from a constructor or a copy and has not been destroyed.
\<close>

definition holds_reference :: "SharedPtr \<Rightarrow> world \<Rightarrow> bool" where
  "holds_reference this w =
     (case blocks w (state this) of
        None \<Rightarrow> False
      | Some st \<Rightarrow> SharedPtrState.ref_count st \<noteq> 0)"

section \<open>Facts about the intrinsics and the building blocks\<close>

lemmas intrinsic_defs =
  InterlockedIncrement64_def InterlockedDecrement64_def
  InterlockedExchangeAdd64_def InterlockedCompareExchangePointer_def

lemma SharedPtrState_deref_ref:
  "SharedPtrState_deref (SharedPtrState_ref st) = (SharedPtrState.ref_count st = 0, st)"
  by (simp add: SharedPtrState_deref_def SharedPtrState_ref_def intrinsic_defs)

lemma SharedPtrState_deref_zero:
  "SharedPtrState_deref st = (True, st') \<Longrightarrow> SharedPtrState.ref_count st' = 0"
  by (auto simp: SharedPtrState_deref_def InterlockedDecrement64_def)

text \<open>
  The destructor of a control block whose count is already zero decrements it once more,
  finds \<open>-1\<close>, and returns before the payload is touched.
\<close>

lemma SharedPtrState_dtor_at_zero:
  "SharedPtrState.ref_count st = 0 \<Longrightarrow>
   SharedPtrState_dtor T st w = Inr (st\<lparr>SharedPtrState.ref_count := - 1\<rparr>, w)"
  by (simp add: SharedPtrState_dtor_def InterlockedDecrement64_def)

text \<open>
  A control block that is destroyed on its own, at count one, does destroy a scalar payload.
\<close>

lemma SharedPtrState_dtor_at_one:
  assumes "SharedPtrState.ref_count st = 1" and "\<not> is_array T"
    and "SharedPtrState.data st \<noteq> nullptr"
    and "objects w (SharedPtrState.data st) = Some a" and "form a = ScalarNew"
  shows "\<exists>st' w'. SharedPtrState_dtor T st w = Inr (st', w') \<and>
           trace w' = trace w @ [Destroy (SharedPtrState.data st) 0,
                                 Release (SharedPtrState.data st) (bytes a)]"
  using assms
  by (simp add: SharedPtrState_dtor_def InterlockedDecrement64_def delete_expr_def
        destroy_events_def)

section \<open>Properties of SpinLock\<close>

text \<open>
  Claim C10. \<^verbatim>\<open>SpinLock::ref()\<close> returns the current value of the counter and leaves the
  lock exactly as it was: the counter after the call equals the counter before it.
\<close>

theorem SpinLock_ref_pure:
  "SpinLock_ref this = (SpinLock.ref_count this, this)"
  by (simp add: SpinLock_ref_def InterlockedExchangeAdd64_def)

lemma SpinLock_lock_count:
  "SpinLock.ref_count (SpinLock_lock l) = SpinLock.ref_count l - 1"
  by (simp add: SpinLock_lock_def InterlockedDecrement64_def)

lemma SpinLock_unlock_lock: "SpinLock_unlock (SpinLock_lock l) = l"
  by (simp add: SpinLock_lock_def SpinLock_unlock_def intrinsic_defs)

text \<open>
  Every call of \<^verbatim>\<open>lock()\<close> returns, whatever the counter holds: the caller is inside
  afterwards, whoever was inside before.
\<close>

lemma lock_step_enters:
  "inside (lock_step (CallLock c) s) = inside s @ [c]"
  by simp

text \<open>
  Claim C2 says that \<^verbatim>\<open>lock()\<close> does not return until the caller has exclusive
  access, so that of two contexts calling it on one SpinLock the second enters only after
  the first has called \<^verbatim>\<open>unlock()\<close>. In the code, contexts 0 and 1 call \<^verbatim>\<open>lock()\<close>
  one after the other on a fresh SpinLock and no \<^verbatim>\<open>unlock()\<close> is called: both calls
  return, both contexts are inside the guarded section, and the counter holds \<open>-2\<close>.
\<close>

theorem SpinLock_both_contexts_inside:
  "inside (lock_run [CallLock 0, CallLock 1] lock_sys_init) = [0, 1] \<and>
   sint (SpinLock.ref_count (the_lock (lock_run [CallLock 0, CallLock 1] lock_sys_init))) = - 2"
  by (simp add: lock_sys_init_def SpinLock_ctor_def SpinLock_lock_def InterlockedDecrement64_def)

section \<open>Properties of ScopedLock\<close>

text \<open>Over a live lock the guard makes one \<^verbatim>\<open>lock()\<close> call and one \<^verbatim>\<open>unlock()\<close> call,
  in that order, and the lock's counter ends where it began.\<close>

lemma ScopedLock_balanced:
  assumes "p \<noteq> nullptr" and "locks ls p = Some l"
  shows "\<exists>g ls1 ls2. ScopedLock_ctor p ls = Inr (g, ls1) \<and> ScopedLock_dtor g ls1 = Inr ls2
           \<and> calls ls2 = calls ls @ [DidLock p, DidUnlock p] \<and> locks ls2 = locks ls"
  using assms
  by (simp add: ScopedLock_ctor_def ScopedLock_dtor_def Lock_lock_def Lock_unlock_def
        SpinLock_unlock_lock map_upd_triv)

text \<open>The destructor does tolerate a null lock pointer.\<close>

lemma ScopedLock_dtor_null: "ScopedLock_dtor \<lparr>lock = nullptr\<rparr> ls = Inr ls"
  by (simp add: ScopedLock_dtor_def)

text \<open>
  Claim C7 says that a ScopedLock constructed over a null lock pointer does not crash and
  skips both acquisition and release. In the code only the destructor tests the pointer:
  the constructor stores it and calls \<^verbatim>\<open>this->lock->lock()\<close> at once, which for a null
  pointer is a virtual call through null, whatever the store of locks holds.
\<close>

theorem ScopedLock_ctor_null_faults:
  "ScopedLock_ctor nullptr ls = Inl NullDeref"
  by (simp add: ScopedLock_ctor_def Lock_lock_def)

section \<open>Properties of Atomic\<close>

text \<open>\<^verbatim>\<open>load()\<close> returns the stored pointer and leaves the slot as it was.\<close>

lemma Atomic_load_reads: "Atomic_load this = (Atomic.data this, this)"
  by (simp add: Atomic_load_def InterlockedCompareExchangePointer_def)

text \<open>
  \<^verbatim>\<open>exchange(p)\<close> never writes \<open>p\<close>: it writes the slot's own address, and only when the
  slot already holds \<open>p\<close>.
\<close>

lemma Atomic_exchange_data:
  "Atomic.data (Atomic_exchange this p) =
     (if Atomic.data this = p then self this else Atomic.data this)"
  by (simp add: Atomic_exchange_def InterlockedCompareExchangePointer_def)

lemma Atomic_exchange_stores_iff:
  "Atomic.data (Atomic_exchange this p) = p \<longleftrightarrow> Atomic.data this = p \<and> self this = p"
  by (auto simp: Atomic_exchange_data)

text \<open>
  Claim C3 says that after \<^verbatim>\<open>exchange(p)\<close> a \<^verbatim>\<open>load()\<close> returns \<open>p\<close>. In the code, a
  default-constructed slot at address \<open>0x5000\<close> on which \<^verbatim>\<open>exchange(0x7000)\<close> is called
  still holds null: the following \<^verbatim>\<open>load()\<close> returns null, not \<open>0x7000\<close>.
\<close>

theorem Atomic_exchange_then_load_returns_old:
  "fst (Atomic_load (Atomic_exchange (Atomic_ctor_default 0x5000) 0x7000)) = nullptr \<and>
   nullptr \<noteq> (0x7000 :: addr)"
  by (simp add: Atomic_load_reads Atomic_exchange_data Atomic_ctor_default_def nullptr_def)

text \<open>
  Claim C4 says that a \<^verbatim>\<open>load()\<close> returns the initial value or a value passed to
  \<^verbatim>\<open>exchange\<close>, and never the slot's own storage address. In the code, a
  default-constructed slot at address \<open>0x5000\<close> holds null; \<^verbatim>\<open>exchange(nullptr)\<close> finds
  the comparand equal to the contents and stores \<^verbatim>\<open>&this->data\<close>; the following
  \<^verbatim>\<open>load()\<close> returns \<open>0x5000\<close>, the address of the slot, which is neither the initial
  value nor the value that was passed.
\<close>

theorem Atomic_load_returns_own_address:
  "fst (Atomic_load (Atomic_exchanges (Atomic_ctor_default 0x5000) [nullptr])) = 0x5000 \<and>
   self (Atomic_ctor_default 0x5000) = 0x5000 \<and>
   Atomic.data (Atomic_ctor_default 0x5000) \<noteq> 0x5000 \<and>
   (0x5000 :: addr) \<notin> set [nullptr]"
  by (simp add: Atomic_load_reads Atomic_exchange_data Atomic_ctor_default_def nullptr_def)

section \<open>Properties of UniquePtr\<close>

text \<open>For a non-array \<open>T\<close> construction and destruction match: one destructor call, and
  the \<^verbatim>\<open>sizeof(T)\<close> bytes that were allocated are released.\<close>

lemma UniquePtr_scalar_roundtrip:
  assumes "\<not> is_array T" and "p \<noteq> nullptr" and "UniquePtr_ctor T pg p w = (u, w')"
  shows "\<exists>w''. UniquePtr_dtor T u w' = Inr w'' \<and>
           trace w'' = trace w @ [Destroy p 0, Release p (elem_size T)]"
  using assms
  by (auto simp: UniquePtr_ctor_def UniquePtr_dtor_def new_expr_def delete_expr_def Let_def
        sizeof_T_def destroy_events_def)

text \<open>So they do for an array \<open>T\<close> built by the sized constructor, whose new-expression
  names \<open>T\<close> itself.\<close>

lemma UniquePtr_sized_array_roundtrip:
  assumes "is_array T" and "p \<noteq> nullptr" and "UniquePtr_ctor_sized T sz pg p w = (u, w')"
  shows "\<exists>w''. UniquePtr_dtor T u w' = Inr w'' \<and>
           trace w'' = trace w @ destroy_events p (extent T) @ [Release p sz]"
  using assms
  by (auto simp: UniquePtr_ctor_sized_def UniquePtr_dtor_def new_expr_def delete_expr_def Let_def
        form_of_T_def)

text \<open>For an array \<open>T\<close> built by the first constructor the destructor's \<^verbatim>\<open>delete[]\<close>
  never matches the constructor's scalar \<^verbatim>\<open>new\<close>, whatever the extent.\<close>

lemma UniquePtr_array_mismatch:
  assumes "is_array T" and "p \<noteq> nullptr" and "UniquePtr_ctor T pg p w = (u, w')"
  shows "elements (form (the (objects w' p))) = 1 \<and> UniquePtr_dtor T u w' = Inl MismatchedDelete"
  using assms
  by (auto simp: UniquePtr_ctor_def UniquePtr_dtor_def new_expr_def delete_expr_def Let_def)

text \<open>
  Claim C9 says that destroying a UniquePtr over \<^verbatim>\<open>T[K]\<close> runs the destructor of each of
  the \<open>K\<close> elements once and releases the \<^verbatim>\<open>K * sizeof(T)\<close> bytes that were allocated.
  In the code, for an array of two elements of eight bytes, the constructor allocates
  sixteen bytes and creates one element in them with a scalar \<^verbatim>\<open>new\<close>; the destructor
  then applies \<^verbatim>\<open>delete[]\<close> to that pointer, which is undefined: no element destructor
  is recorded and nothing is released.
\<close>

theorem UniquePtr_array_dtor_mismatched:
  "(case UniquePtr_ctor \<lparr>is_array = True, extent = 2, elem_size = 8\<rparr> False 0x1000 empty_world of
      (u, w) \<Rightarrow> (objects w 0x1000,
                 UniquePtr_dtor \<lparr>is_array = True, extent = 2, elem_size = 8\<rparr> u w))
   = (Some \<lparr>bytes = 16, paged = False, form = ScalarNew\<rparr>, Inl MismatchedDelete) \<and>
   elements ScalarNew = 1"
  by (simp add: UniquePtr_ctor_def UniquePtr_dtor_def new_expr_def delete_expr_def nullptr_def
        empty_world_def)

section \<open>Properties of SharedPtr\<close>

text \<open>A handle that a constructor produced over a successful allocation references a live
  block with a count other than zero.\<close>

lemma SharedPtr_ctor_holds_reference:
  "ps \<noteq> nullptr \<Longrightarrow> SharedPtr_ctor T pg ps pd w = (h, w') \<Longrightarrow> holds_reference h w'"
  by (auto simp: SharedPtr_ctor_def SharedPtrState_ctor_def holds_reference_def Let_def
        split: if_splits prod.splits)

lemma SharedPtr_copy_live:
  assumes "state other \<noteq> nullptr" and "blocks w (state other) = Some st"
  shows "SharedPtr_copy other w =
           Inr (\<lparr>state = state other\<rparr>,
                w\<lparr>blocks := (blocks w)(state other \<mapsto> SharedPtrState_ref st)\<rparr>)"
  using assms by (simp add: SharedPtr_copy_def)

text \<open>Destroying the copy that was just made undoes the increment and releases nothing.\<close>

lemma SharedPtr_dtor_after_copy:
  assumes "p \<noteq> nullptr" and "blocks w p = Some st" and "SharedPtrState.ref_count st \<noteq> 0"
  shows "SharedPtr_dtor T \<lparr>state = p\<rparr>
           (w\<lparr>blocks := (blocks w)(p \<mapsto> SharedPtrState_ref st)\<rparr>) = Inr w"
  using assms by (simp add: SharedPtr_dtor_def SharedPtrState_deref_ref map_upd_triv)

text \<open>The operations that test the state pointer leave a null handle and the world alone.\<close>

lemma SharedPtr_dtor_null: "SharedPtr_dtor T \<lparr>state = nullptr\<rparr> w = Inr w"
  by (simp add: SharedPtr_dtor_def)

lemma SharedPtr_copy_null:
  "SharedPtr_copy \<lparr>state = nullptr\<rparr> w = Inr (\<lparr>state = nullptr\<rparr>, w)"
  by (simp add: SharedPtr_copy_def)

text \<open>
  No destruction of a handle ever runs a payload destructor or removes a payload: when
  \<^verbatim>\<open>deref()\<close> reports zero, the destructor of the control block decrements the count a
  second time and returns early.
\<close>

lemma SharedPtr_dtor_keeps_payload:
  assumes "SharedPtr_dtor T this w = Inr w'"
  shows "objects w' = objects w \<and>
         filter is_Destroy (trace w') = filter is_Destroy (trace w)"
proof (cases "state this = nullptr")
  case True
  with assms show ?thesis by (simp add: SharedPtr_dtor_def)
next
  case False
  then obtain st where st: "blocks w (state this) = Some st"
    using assms by (auto simp: SharedPtr_dtor_def split: option.splits)
  obtain z st' where d: "SharedPtrState_deref st = (z, st')"
    by (cases "SharedPtrState_deref st")
  show ?thesis
  proof (cases z)
    case False
    with assms \<open>state this \<noteq> nullptr\<close> st d show ?thesis
      by (auto simp: SharedPtr_dtor_def)
  next
    case True
    with d have z0: "SharedPtrState.ref_count st' = 0"
      by (simp add: SharedPtrState_deref_zero)
    from assms \<open>state this \<noteq> nullptr\<close> st d True z0 show ?thesis
      by (auto simp: SharedPtr_dtor_def delete_state_def SharedPtrState_dtor_at_zero)
  qed
qed

text \<open>The same holds for any number of handles destroyed in any order.\<close>

lemma SharedPtr_dtor_all_keeps_payload:
  "SharedPtr_dtor_all T hs w = Inr w' \<Longrightarrow>
   objects w' = objects w \<and> filter is_Destroy (trace w') = filter is_Destroy (trace w)"
proof (induction hs arbitrary: w)
  case Nil
  then show ?case by simp
next
  case (Cons h hs)
  from Cons.prems obtain w1 where
    first: "SharedPtr_dtor T h w = Inr w1" and rest: "SharedPtr_dtor_all T hs w1 = Inr w'"
    by (auto split: sum.splits)
  from SharedPtr_dtor_keeps_payload [OF first] Cons.IH [OF rest] show ?case
    by simp
qed

text \<open>A copy of a handle that references a live block references it too, and the count
  stays off zero unless the increment wraps around.\<close>

lemma SharedPtr_copy_holds_reference:
  assumes "state other \<noteq> nullptr" and "blocks w (state other) = Some st"
    and "SharedPtrState.ref_count st \<noteq> - 1"
    and "SharedPtr_copy other w = Inr (c, w')"
  shows "state c = state other \<and> holds_reference c w' \<and> holds_reference other w'"
proof -
  have "SharedPtrState.ref_count st + 1 \<noteq> 0"
    using assms(3) by (simp add: eq_neg_iff_add_eq_0)
  with assms(4) show ?thesis
    by (auto simp: SharedPtr_copy_live [OF assms(1,2)] holds_reference_def
          SharedPtrState_ref_def InterlockedIncrement64_def)
qed

text \<open>
  Claim C1 says that when the handles sharing one control block are all destroyed, the
  payload's destructor runs exactly once, at the destruction of the last handle. In the
  code, handle \<open>A\<close> is constructed (block at \<open>0x1000\<close>, payload at \<open>0x2000\<close>), copied into
  \<open>B\<close>, and then \<open>A\<close> and \<open>B\<close> are destroyed. Afterwards the control block is gone, the
  only effect recorded is the release of the block, holding count \<open>-1\<close>, and the payload is
  still allocated: its destructor has not run.
\<close>

theorem SharedPtr_last_drop_skips_payload:
  "(case SharedPtr_ctor \<lparr>is_array = False, extent = 0, elem_size = 8\<rparr> False 0x1000 0x2000
           empty_world of
      (A, w0) \<Rightarrow>
        (case SharedPtr_copy A w0 of
           Inl e \<Rightarrow> Inl e
         | Inr (B, w1) \<Rightarrow>
             (case SharedPtr_dtor \<lparr>is_array = False, extent = 0, elem_size = 8\<rparr> A w1 of
                Inl e \<Rightarrow> Inl e
              | Inr w2 \<Rightarrow>
                  (case SharedPtr_dtor \<lparr>is_array = False, extent = 0, elem_size = 8\<rparr> B w2 of
                     Inl e \<Rightarrow> Inl e
                   | Inr w3 \<Rightarrow> Inr (trace w3, objects w3 0x2000, blocks w3 0x1000)))))
   = Inr ([FreeBlock 0x1000 (- 1)],
          Some \<lparr>bytes = 8, paged = False, form = ScalarNew\<rparr>,
          None)"
  by (simp add: SharedPtr_ctor_def SharedPtrState_ctor_def new_expr_def nullptr_def sizeof_T_def
        empty_world_def SharedPtr_copy_def SharedPtrState_ref_def SharedPtr_dtor_def
        SharedPtrState_deref_def delete_state_def SharedPtrState_dtor_def intrinsic_defs)

text \<open>
  Claim C5 says that over any sequence of \<^verbatim>\<open>ref()\<close> and \<^verbatim>\<open>deref()\<close> calls on a control
  block that starts at count one, together with the block's destruction, the count never
  becomes negative. In the code, one handle is constructed and destroyed: \<^verbatim>\<open>deref()\<close>
  takes the count from one to zero and reports it, and the destructor of the block, run by
  \<^verbatim>\<open>delete this->state\<close>, decrements again, so the block is released holding \<open>-1\<close>.
\<close>

theorem SharedPtrState_count_goes_negative:
  "SharedPtrState_deref \<lparr>SharedPtrState.ref_count = 1, SharedPtrState.data = 0x2000\<rparr>
     = (True, \<lparr>SharedPtrState.ref_count = 0, SharedPtrState.data = 0x2000\<rparr>) \<and>
   (case SharedPtr_ctor \<lparr>is_array = False, extent = 0, elem_size = 8\<rparr> False 0x1000 0x2000
           empty_world of
      (A, w0) \<Rightarrow>
        (case SharedPtr_dtor \<lparr>is_array = False, extent = 0, elem_size = 8\<rparr> A w0 of
           Inl e \<Rightarrow> Inl e
         | Inr w1 \<Rightarrow> Inr (trace w1)))
     = Inr [FreeBlock 0x1000 (- 1)] \<and>
   sint (- 1 :: i64) < 0"
  by (simp add: SharedPtr_ctor_def SharedPtrState_ctor_def new_expr_def nullptr_def sizeof_T_def
        empty_world_def SharedPtr_dtor_def SharedPtrState_deref_def delete_state_def
        SharedPtrState_dtor_def intrinsic_defs)

text \<open>
  Claim C6 says that every operation on a handle whose state pointer is null is a no-op
  and not a fault. In the code the destructor and the copy constructor test the pointer,
  but \<^verbatim>\<open>get_data()\<close> does not: \<^verbatim>\<open>ptr()\<close>, \<^verbatim>\<open>operator->\<close> and \<^verbatim>\<open>operator*\<close> on a
  null handle call \<^verbatim>\<open>this->state->ptr()\<close> through the null pointer, in every world.
\<close>

theorem SharedPtr_null_access_faults:
  "SharedPtr_ptr \<lparr>state = nullptr\<rparr> w = Inl NullDeref \<and>
   SharedPtr_arrow \<lparr>state = nullptr\<rparr> w = Inl NullDeref \<and>
   SharedPtr_star \<lparr>state = nullptr\<rparr> w = Inl NullDeref"
  by (simp add: SharedPtr_ptr_def SharedPtr_arrow_def SharedPtr_star_def SharedPtr_get_data_def)

text \<open>
  Claim C8. Copy-assigning a handle to itself leaves it unchanged: for the handle stored
  at location \<open>h\<close>, null or referencing a live control block whose count is not zero, the
  assignment \<^verbatim>\<open>*h = *h\<close> returns without a fault, and the store of handles and the whole
  world (the control block's count with it) are what they were before.
\<close>

theorem SharedPtr_self_assign:
  assumes "hs h = Some this"
    and "state this = nullptr \<or> holds_reference this w"
  shows "SharedPtr_assign T h h hs w = Inr (hs, w)"
proof (cases "state this = nullptr")
  case True
  with assms(1) show ?thesis
    by (simp add: SharedPtr_assign_def SharedPtr_copy_def SharedPtr_dtor_def detail_swap_def
          map_upd_triv)
next
  case False
  with assms(2) obtain st where st: "blocks w (state this) = Some st"
    and nz: "SharedPtrState.ref_count st \<noteq> 0"
    by (auto simp: holds_reference_def split: option.splits)
  have swap: "detail_swap (state this) (state this) = (state this, state this)"
    by (simp add: detail_swap_def)
  show ?thesis
    using assms(1) False
    by (simp add: SharedPtr_assign_def SharedPtr_copy_live [OF False st] swap
          SharedPtr_dtor_after_copy [OF False st nz] map_upd_triv)
qed

theorem SharedPtr_self_assign_witness:
  "(let T = \<lparr>is_array = False, extent = 0, elem_size = 8\<rparr>;
        hw = SharedPtr_ctor T False 0x1000 0x2000 empty_world;
        hs = [0x100 \<mapsto> fst hw]
    in hs 0x100 = Some (fst hw)
       \<and> (state (fst hw) = nullptr \<or> holds_reference (fst hw) (snd hw))
       \<and> state (fst hw) = 0x1000
       \<and> map_option SharedPtrState.ref_count (blocks (snd hw) 0x1000) = Some 1
       \<and> SharedPtr_assign T 0x100 0x100 hs (snd hw) = Inr (hs, snd hw))"
  using SharedPtr_self_assign
    [of "[0x100 \<mapsto> fst (SharedPtr_ctor \<lparr>is_array = False, extent = 0, elem_size = 8\<rparr>
                          False 0x1000 0x2000 empty_world)]"
        "0x100"
        "fst (SharedPtr_ctor \<lparr>is_array = False, extent = 0, elem_size = 8\<rparr>
                False 0x1000 0x2000 empty_world)"
        "snd (SharedPtr_ctor \<lparr>is_array = False, extent = 0, elem_size = 8\<rparr>
                False 0x1000 0x2000 empty_world)"
        "\<lparr>is_array = False, extent = 0, elem_size = 8\<rparr>"]
  by (simp add: SharedPtr_ctor_def SharedPtrState_ctor_def new_expr_def nullptr_def
        holds_reference_def sizeof_T_def empty_world_def)

end
